theory Spec2Isabelle
  imports Main
begin

section \<open>JavaScript values and the host platform\<close>

text \<open>
  The components are JavaScript custom elements. Their inputs are attribute strings and
  the values \<open>JSON.parse\<close> makes of them, which the code never type-checks, so the model
  keeps JavaScript's dynamic typing: a parsed value is a \<open>json\<close>, and \<open>undefined\<close> (a
  missing property) is \<open>None\<close> of \<open>json option\<close>.

  A \<open>char\<close> stands for one UTF-16 code unit below 256, so \<open>CHR 0xA0\<close> is the no-break
  space; strings with higher code units are outside the model. A number is carried as the
  text ECMAScript's \<open>Number::toString\<close> prints for it (\<open>0\<close> for both zeros), which decides
  everything the code does with a number: printing, truthiness and the sign.
\<close>

datatype js_error = SyntaxError | TypeError

datatype json =
    JNull
  | JBool bool
  | JNum string
  | JStr string
  | JArr "json list"
  | JObj "(string \<times> json) list"

text \<open>
  What the browser supplies: \<open>JSON.parse\<close> (\<open>Inl\<close> when it throws), whether
  \<open>StringToNumber\<close> of a string is greater than zero (floating point, needed only where a
  parsed object carries its own \<open>length\<close>), and the text of \<open>new Date().getFullYear()\<close>.
\<close>

record host =
  json_parse :: "string \<Rightarrow> js_error + json"
  string_positive :: "string \<Rightarrow> bool"
  full_year :: string

definition and_then :: "'e + 'a \<Rightarrow> ('a \<Rightarrow> 'e + 'b) \<Rightarrow> 'e + 'b" where
  "and_then r f = (case r of Inl e \<Rightarrow> Inl e | Inr v \<Rightarrow> f v)"

text \<open>\<open>ToBoolean\<close>: what \<open>if (x)\<close> and \<open>x || y\<close> test.\<close>

fun truthy :: "json \<Rightarrow> bool" where
  "truthy JNull = False"
| "truthy (JBool b) = b"
| "truthy (JNum t) = (t \<noteq> ''0'' \<and> t \<noteq> ''NaN'')"
| "truthy (JStr s) = (s \<noteq> [])"
| "truthy (JArr xs) = True"
| "truthy (JObj kvs) = True"

definition js_or :: "json option \<Rightarrow> json \<Rightarrow> json" where
  "js_or a b = (case a of None \<Rightarrow> b | Some v \<Rightarrow> if truthy v then v else b)"

text \<open>
  \<open>ToString\<close>, as a template literal applies it. An array prints its elements joined by
  commas, \<open>null\<close> elements as nothing. A parsed object prints \<open>[object Object]\<close>, unless
  it has a key \<open>toString\<close> of its own: that value is not callable, the inherited
  \<open>valueOf\<close> returns the object, and \<open>ToPrimitive\<close> throws a TypeError.
\<close>

fun ToString :: "json \<Rightarrow> js_error + string"
  and join_elements :: "json list \<Rightarrow> js_error + string" where
  "ToString JNull = Inr ''null''"
| "ToString (JBool b) = Inr (if b then ''true'' else ''false'')"
| "ToString (JNum t) = Inr t"
| "ToString (JStr s) = Inr s"
| "ToString (JArr xs) = join_elements xs"
| "ToString (JObj kvs) =
     (if ''toString'' \<in> set (map fst kvs) then Inl TypeError else Inr ''[object Object]'')"
| "join_elements [] = Inr []"
| "join_elements (x # xs) =
     (case (if x = JNull then Inr [] else ToString x) of
        Inl e \<Rightarrow> Inl e
      | Inr s \<Rightarrow>
          (if xs = [] then Inr s
           else case join_elements xs of Inl e \<Rightarrow> Inl e | Inr r \<Rightarrow> Inr (s @ '','' @ r)))"

definition ToString_opt :: "json option \<Rightarrow> js_error + string" where
  "ToString_opt v = (case v of None \<Rightarrow> Inr ''undefined'' | Some x \<Rightarrow> ToString x)"

text \<open>
  \<open>v.name\<close> for the names \<open>text\<close>, \<open>color\<close> and \<open>href\<close>, which no built-in prototype
  defines: reading a property of \<open>null\<close> throws, an object answers with its own key
  (\<open>JSON.parse\<close> leaves keys distinct), every other value with \<open>undefined\<close>.
\<close>

fun Get :: "json \<Rightarrow> string \<Rightarrow> js_error + json option" where
  "Get JNull k = Inl TypeError"
| "Get (JObj kvs) k = Inr (map_of kvs k)"
| "Get v k = Inr None"

text \<open>
  \<open>x > 0\<close> for a value \<open>x\<close> read out of a parsed object: \<open>ToPrimitive\<close> with hint
  number, then \<open>ToNumber\<close>. \<open>NaN > 0\<close> is false.
\<close>

fun greater_zero :: "host \<Rightarrow> json \<Rightarrow> js_error + bool" where
  "greater_zero H JNull = Inr False"
| "greater_zero H (JBool b) = Inr b"
| "greater_zero H (JNum t) = Inr (truthy (JNum t) \<and> take 1 t \<noteq> ''-'')"
| "greater_zero H (JStr s) = Inr (string_positive H s)"
| "greater_zero H (JArr xs) = and_then (ToString (JArr xs)) (\<lambda>s. Inr (string_positive H s))"
| "greater_zero H (JObj kvs) = and_then (ToString (JObj kvs)) (\<lambda>s. Inr False)"

text \<open>\<open>v.length > 0\<close>, the test the card makes on both parsed lists.\<close>

fun length_positive :: "host \<Rightarrow> json \<Rightarrow> js_error + bool" where
  "length_positive H JNull = Inl TypeError"
| "length_positive H (JStr s) = Inr (s \<noteq> [])"
| "length_positive H (JArr xs) = Inr (xs \<noteq> [])"
| "length_positive H (JObj kvs) =
     (case map_of kvs ''length'' of None \<Rightarrow> Inr False | Some l \<Rightarrow> greater_zero H l)"
| "length_positive H v = Inr False"

text \<open>
  \<open>v.forEach(f)\<close>, where every call of \<open>f\<close> appends to the markup: only an array has a
  callable \<open>forEach\<close>; on any other value the call throws a TypeError. The first call
  of \<open>f\<close> that throws ends the loop.
\<close>

fun each :: "(json \<Rightarrow> js_error + string) \<Rightarrow> json list \<Rightarrow> js_error + string" where
  "each f [] = Inr []"
| "each f (x # xs) = and_then (f x) (\<lambda>s. and_then (each f xs) (\<lambda>r. Inr (s @ r)))"

fun forEach :: "json \<Rightarrow> (json \<Rightarrow> js_error + string) \<Rightarrow> js_error + string" where
  "forEach (JArr xs) f = each f xs"
| "forEach v f = Inl TypeError"

text \<open>\<open>a || d\<close> for an attribute read \<open>a\<close> (\<open>null\<close> when absent) and a string \<open>d\<close>.\<close>

definition or_default :: "string option \<Rightarrow> string \<Rightarrow> string" where
  "or_default a d = (case a of None \<Rightarrow> d | Some s \<Rightarrow> if s = [] then d else s)"

text \<open>\<open>if (a)\<close> for an attribute read: an absent attribute and an empty one are both falsy.\<close>

definition truthy_attr :: "string option \<Rightarrow> bool" where
  "truthy_attr a = (a \<noteq> None \<and> a \<noteq> Some [])"

definition startsWith :: "string \<Rightarrow> string \<Rightarrow> bool" where
  "startsWith s p = (take (length p) s = p)"

definition substring :: "string \<Rightarrow> nat \<Rightarrow> nat \<Rightarrow> string" where
  "substring s a b = take (b - a) (drop a s)"

section \<open>The badge element (card.js, class MsuBadge)\<close>

subsection \<open>Numbers in text\<close>

definition digit_char :: "nat \<Rightarrow> char" where
  "digit_char n = ''0123456789'' ! n"

function show_nat :: "nat \<Rightarrow> string" where
  "show_nat n = (if n < 10 then [digit_char n] else show_nat (n div 10) @ [digit_char (n mod 10)])"
  by pat_completeness auto
termination
  by (relation "measure id") auto

text \<open>\<open>ToString\<close> of the result of \<open>parseInt\<close>: \<open>None\<close> is \<open>NaN\<close>, and minus zero prints \<open>0\<close>.\<close>

definition number_text :: "int option \<Rightarrow> string" where
  "number_text r =
     (case r of
        None \<Rightarrow> ''NaN''
      | Some i \<Rightarrow> if i < 0 then ''-'' @ show_nat (nat (- i)) else show_nat (nat i))"

definition white_space :: "char \<Rightarrow> bool" where
  "white_space c =
     (c \<in> set [CHR 0x09, CHR 0x0A, CHR 0x0B, CHR 0x0C, CHR 0x0D, CHR 0x20, CHR 0xA0])"

definition hex_value :: "char \<Rightarrow> nat option" where
  "hex_value = map_of
     (zip ''0123456789abcdef'' [0, 1, 2, 3, 4, 5, 6, 7, 8, 9, 10, 11, 12, 13, 14, 15] @
      zip ''ABCDEF'' [10, 11, 12, 13, 14, 15])"

fun hex_digits :: "string \<Rightarrow> nat list" where
  "hex_digits [] = []"
| "hex_digits (c # cs) = (case hex_value c of None \<Rightarrow> [] | Some d \<Rightarrow> d # hex_digits cs)"

text \<open>
  \<open>parseInt(s, 16)\<close>: leading white space is dropped, then a sign, then a \<open>0x\<close> prefix;
  the longest run of hexadecimal digits that follows is the value, and no digit at all gives
  \<open>NaN\<close>. The code calls it on at most two characters, where the value is exact.
\<close>

definition parseInt16 :: "string \<Rightarrow> int option" where
  "parseInt16 s =
     (let t = dropWhile white_space s;
          u = (if take 1 t = ''-'' \<or> take 1 t = ''+'' then drop 1 t else t);
          v = (if take 2 u = ''0x'' \<or> take 2 u = ''0X'' then drop 2 u else u);
          ds = hex_digits v
      in if ds = [] then None
         else Some ((if take 1 t = ''-'' then - 1 else 1) * int (foldl (\<lambda>a d. 16 * a + d) 0 ds)))"

definition is_digit :: "char \<Rightarrow> bool" where
  "is_digit c = (c \<in> set ''0123456789'')"

text \<open>\<open>color.match(/\d+/g)\<close>: the maximal runs of decimal digits, left to right.\<close>

function digit_runs :: "string \<Rightarrow> string list" where
  "digit_runs [] = []"
| "digit_runs (c # cs) =
     (if is_digit c then (c # takeWhile is_digit cs) # digit_runs (dropWhile is_digit cs)
      else digit_runs cs)"
  by pat_completeness auto
termination
  by (relation "measure length") (auto simp: less_Suc_eq_le length_dropWhile_le)

subsection \<open>addAlpha, getCustomColorStyles, getBadgeStyles\<close>

text \<open>
  \<open>alpha\<close> is the text the template literal prints for the number passed: the callers
  pass \<open>0.1\<close>, \<open>0.2\<close> and \<open>0.3\<close>. \<open>color.replace('#', '')\<close> removes the first \<open>#\<close>; a
  \<open>match\<close> without any run is \<open>null\<close>, which fails the test as the empty list does.
\<close>

definition addAlpha :: "string \<Rightarrow> string \<Rightarrow> string" where
  "addAlpha color alpha =
     (if startsWith color ''#'' then
        (let hex = remove1 (CHR ''#'') color;
             r = parseInt16 (substring hex 0 2);
             g = parseInt16 (substring hex 2 4);
             b = parseInt16 (substring hex 4 6)
         in ''rgba('' @ number_text r @ '', '' @ number_text g @ '', '' @ number_text b @
            '', '' @ alpha @ '')'')
      else if startsWith color ''rgb'' \<and> 3 \<le> length (digit_runs color) then
        (let m = digit_runs color
         in ''rgba('' @ m ! 0 @ '', '' @ m ! 1 @ '', '' @ m ! 2 @ '', '' @ alpha @ '')'')
      else color)"

definition getCustomColorStyles :: "string \<Rightarrow> bool \<Rightarrow> string" where
  "getCustomColorStyles color isDarkTheme =
     (if isDarkTheme then
        ''\<newline>'' @
        ''                background: linear-gradient(90deg, '' @ addAlpha color ''0.3'' @
        '', '' @ addAlpha color ''0.2'' @ '');\<newline>'' @
        ''                color: #ffffff;\<newline>'' @
        ''                border: 1px solid '' @ addAlpha color ''0.1'' @ '';\<newline>'' @
        ''            ''
      else
        ''\<newline>'' @
        ''                background-color: '' @ addAlpha color ''0.1'' @ '';\<newline>'' @
        ''                color: '' @ color @ '';\<newline>'' @
        ''                border: 1px solid '' @ addAlpha color ''0.2'' @ '';\<newline>'' @
        ''            '')"

definition base_styles :: string where
  "base_styles =
     ''\<newline>'' @
     ''            .badge {\<newline>'' @
     ''                display: inline-block;\<newline>'' @
     ''                padding: 0.25rem 0.75rem;\<newline>'' @
     ''                font-size: 0.875rem;\<newline>'' @
     ''                font-weight: 500;\<newline>'' @
     ''                border-radius: 9999px;\<newline>'' @
     ''                margin-right: 0.5rem;\<newline>'' @
     ''                margin-bottom: 0.5rem;\<newline>'' @
     ''                transition: all 200ms ease-in-out;\<newline>'' @
     ''            }\<newline>'' @
     ''        ''"

text \<open>
  \<open>if (customColor)\<close> is a truthiness test: an absent \<open>color\<close> attribute (\<open>null\<close>) and an
  empty one both fail it.
\<close>

definition getBadgeStyles :: "string option \<Rightarrow> string option \<Rightarrow> bool \<Rightarrow> string" where
  "getBadgeStyles variant customColor isDarkTheme =
     base_styles @
     (if truthy_attr customColor then
        ''\<newline>'' @
        ''                .badge {\<newline>'' @
        ''                    '' @ getCustomColorStyles (the customColor) isDarkTheme @ ''\<newline>'' @
        ''                }\<newline>'' @
        ''            ''
      else if variant = Some ''purple'' then
        (if isDarkTheme then
           ''\<newline>'' @
           ''                    .badge {\<newline>'' @
           ''                        background: linear-gradient(90deg, rgba(109,40,217,0.28), rgba(159,122,234,0.28));\<newline>'' @
           ''                        color: #ffffff;\<newline>'' @
           ''                        border: 1px solid rgba(159,122,234,0.08);\<newline>'' @
           ''                    }\<newline>'' @
           ''                ''
         else
           ''\<newline>'' @
           ''                    .badge {\<newline>'' @
           ''                        background-color: #f3e8ff;\<newline>'' @
           ''                        color: #6d28d9;\<newline>'' @
           ''                        border: 1px solid rgba(109,40,217,0.28);\<newline>'' @
           ''                    }\<newline>'' @
           ''                '')
      else if variant = Some ''orange'' then
        (if isDarkTheme then
           ''\<newline>'' @
           ''                    .badge {\<newline>'' @
           ''                        background: linear-gradient(90deg, rgba(180,83,9,0.28), rgba(245,158,11,0.28));\<newline>'' @
           ''                        color: #ffffff;\<newline>'' @
           ''                        border: 1px solid rgba(245,158,11,0.08);\<newline>'' @
           ''                    }\<newline>'' @
           ''                ''
         else
           ''\<newline>'' @
           ''                    .badge {\<newline>'' @
           ''                        background-color: #fff7ed;\<newline>'' @
           ''                        color: #b45309;\<newline>'' @
           ''                        border: 1px solid rgba(180,83,9,0.28);\<newline>'' @
           ''                    }\<newline>'' @
           ''                '')
      else
        (if isDarkTheme then
           ''\<newline>'' @
           ''                    .badge {\<newline>'' @
           ''                        background-color: #1a2622;\<newline>'' @
           ''                        color: #4ade80;\<newline>'' @
           ''                        border: none;\<newline>'' @
           ''                    }\<newline>'' @
           ''                ''
         else
           ''\<newline>'' @
           ''                    .badge {\<newline>'' @
           ''                        background-color: #dcfce7;\<newline>'' @
           ''                        color: #1a9659;\<newline>'' @
           ''                        border: none;\<newline>'' @
           ''                    }\<newline>'' @
           ''                ''))"

section \<open>The card element (card.js, class MsuCard)\<close>

text \<open>An element is read through \<open>getAttribute\<close>, which answers \<open>null\<close> for an absent attribute.\<close>

type_synonym element = "string \<Rightarrow> string option"

text \<open>
  \<open>escapeHtml\<close> stores its argument as the text of a fresh \<open>div\<close> and reads the markup
  back. The \<open>textContent\<close> setter takes \<open>null\<close> as the empty string and applies \<open>ToString\<close>
  to anything else; serialising a text node replaces \<open>&\<close>, the no-break space, \<open><\<close> and
  \<open>>\<close>, and leaves quotes alone.
\<close>

definition escape_char :: "char \<Rightarrow> string" where
  "escape_char c =
     (if c = CHR ''&'' then ''&amp;''
      else if c = CHR 0xA0 then ''&nbsp;''
      else if c = CHR ''<'' then ''&lt;''
      else if c = CHR ''>'' then ''&gt;''
      else [c])"

definition escapeText :: "string \<Rightarrow> string" where
  "escapeText s = concat (map escape_char s)"

definition escapeHtml :: "json \<Rightarrow> js_error + string" where
  "escapeHtml text =
     (if text = JNull then Inr [] else and_then (ToString text) (\<lambda>s. Inr (escapeText s)))"

text \<open>
  \<open>try { x = JSON.parse(src) } catch (e) { console.warn(message, src) }\<close> with \<open>x\<close>
  initialised to the empty array: the value, and what was logged.
\<close>

definition parse_or_empty :: "host \<Rightarrow> string \<Rightarrow> string \<Rightarrow> json \<times> (string \<times> string) list" where
  "parse_or_empty H message src =
     (case json_parse H src of Inr v \<Rightarrow> (v, []) | Inl e \<Rightarrow> (JArr [], [(message, src)]))"

text \<open>The callback of \<open>colorBadges.forEach\<close>: the markup one entry appends.\<close>

definition color_badge :: "json \<Rightarrow> js_error + string" where
  \<open>color_badge badge =
     and_then (Get badge ''text'') (\<lambda>t.
     and_then (Get badge ''color'') (\<lambda>c.
       let text = js_or t (JStr []); color = js_or c (JStr [])
       in if color = JStr ''purple'' \<or> color = JStr ''orange'' then
            and_then (ToString color) (\<lambda>cs.
            and_then (escapeHtml text) (\<lambda>e.
              Inr (''<msu-badge variant="'' @ cs @ ''">'' @ e @ ''</msu-badge>'')))
          else if truthy color then
            and_then (ToString color) (\<lambda>cs.
            and_then (escapeHtml text) (\<lambda>e.
              Inr (''<msu-badge color="'' @ cs @ ''">'' @ e @ ''</msu-badge>'')))
          else
            and_then (escapeHtml text) (\<lambda>e.
              Inr (''<msu-badge>'' @ e @ ''</msu-badge>''))))\<close>

text \<open>The callback of \<open>badges.forEach\<close>.\<close>

definition plain_badge :: "json \<Rightarrow> js_error + string" where
  "plain_badge text =
     and_then (escapeHtml text) (\<lambda>e. Inr (''<msu-badge>'' @ e @ ''</msu-badge>''))"

text \<open>
  The badges container: the block under \<open>if (colorBadges.length > 0 || badges.length > 0)\<close>.
  The right operand of \<open>||\<close> is evaluated only when the left one is false.
\<close>

definition card_badges :: "host \<Rightarrow> json \<Rightarrow> json \<Rightarrow> js_error + string" where
  \<open>card_badges H colorBadges badges =
     and_then
       (and_then (length_positive H colorBadges)
          (\<lambda>p. if p then Inr True else length_positive H badges))
       (\<lambda>shown.
          if shown then
            and_then (forEach colorBadges color_badge) (\<lambda>cb.
            and_then (forEach badges plain_badge) (\<lambda>pb.
              Inr (''<div class="card-badges">'' @ cb @ pb @ ''</div>'')))
          else Inr [])\<close>

text \<open>
  \<open>MsuCard.render\<close>: the warnings logged, and either the exception thrown or the markup
  assigned to \<open>innerHTML\<close>.
\<close>

definition MsuCard_render :: "host \<Rightarrow> element \<Rightarrow> (string \<times> string) list \<times> (js_error + string)" where
  \<open>MsuCard_render H el =
     (let title = or_default (el ''title'') ''Untitled'';
          description = or_default (el ''description'') [];
          badgesJson = or_default (el ''badges'') ''[]'';
          colorBadgesJson = or_default (el ''color-badges'') ''[]'';
          variant = el ''variant'';
          icon = el ''icon'';
          href = el ''href'';
          (badges, w1) = parse_or_empty H ''Failed to parse badges JSON:'' badgesJson;
          (colorBadges, w2) =
            parse_or_empty H ''Failed to parse color-badges JSON:'' colorBadgesJson;
          cardClass = ''card'' @ (if variant = Some ''green'' then '' card-green'' else [])
      in (w1 @ w2,
          and_then (if truthy_attr href then escapeHtml (JStr (the href)) else Inr []) (\<lambda>h.
          and_then (escapeHtml (JStr title)) (\<lambda>t.
          and_then (escapeHtml (JStr description)) (\<lambda>d.
          and_then (card_badges H colorBadges badges) (\<lambda>b.
            Inr ((if truthy_attr href then
                    ''<a href="'' @ h @
                    ''" class="card-link" style="text-decoration: none; color: inherit; display: block;">''
                  else []) @
                 ''<div class="'' @ cardClass @ ''">'' @
                 (if truthy_attr icon then
                    ''<div style="font-size: 3rem; margin-bottom: var(--space-4);">\<newline>'' @
                    ''                <ion-icon name="'' @ the icon @
                    ''" style="font-size:3rem;"></ion-icon>\<newline>'' @
                    ''            </div>''
                  else []) @
                 ''<h4 class="card-title">'' @ t @ ''</h4>'' @
                 (if description \<noteq> [] then ''<p class="card-text">'' @ d @ ''</p>'' else []) @
                 b @
                 ''</div>'' @
                 (if truthy_attr href then ''</a>'' else []))))))))\<close>

section \<open>The navigation bar and the footer (navigation.js)\<close>

definition link_object :: "string \<Rightarrow> string \<Rightarrow> json" where
  "link_object h t = JObj [(''href'', JStr h), (''text'', JStr t)]"

definition defaultSiteLinks :: "json list" where
  "defaultSiteLinks = [link_object ''/index.html'' ''Home'', link_object ''/future.html'' ''Demo'']"

record site_config =
  brandName :: string
  email :: string
  description :: string

definition siteConfig :: site_config where
  "siteConfig = \<lparr>brandName = ''MSU SO'', email = ''scioly@msuso.org'',
     description = ''Supporting Michigan Science Olympiad through tournament volunteering, resources, and community building.''\<rparr>"

text \<open>\<open>pageLinksAttr ? JSON.parse(pageLinksAttr) : []\<close>: the parse is not guarded.\<close>

definition page_links :: "host \<Rightarrow> element \<Rightarrow> js_error + json" where
  "page_links H el =
     (if truthy_attr (el ''page-links'') then json_parse H (the (el ''page-links''))
      else Inr (JArr []))"

text \<open>
  \<open>[...site, ...pageLinks]\<close>: an array spreads into its elements and a string into its
  characters; no other parsed value is iterable.
\<close>

fun spread :: "json \<Rightarrow> js_error + json list" where
  "spread (JArr xs) = Inr xs"
| "spread (JStr s) = Inr (map (\<lambda>c. JStr [c]) s)"
| "spread v = Inl TypeError"

definition all_links :: "json list \<Rightarrow> json \<Rightarrow> js_error + json list" where
  "all_links site pageLinks = and_then (spread pageLinks) (\<lambda>xs. Inr (site @ xs))"

text \<open>One \<open>li\<close> of a link list, where \<open>middle\<close> is what stands between href and text.\<close>

definition link_item :: "string \<Rightarrow> json \<Rightarrow> js_error + string" where
  \<open>link_item middle link =
     and_then (Get link ''href'') (\<lambda>h.
     and_then (ToString_opt h) (\<lambda>hs.
     and_then (Get link ''text'') (\<lambda>t.
     and_then (ToString_opt t) (\<lambda>ts.
       Inr (''<li><a href="'' @ hs @ middle @ ts @ ''</a></li>'')))))\<close>

definition desktop_links :: "json list \<Rightarrow> js_error + string" where
  \<open>desktop_links links = each (link_item ''" class="navbar-link">'') links\<close>

definition mobile_links :: "json list \<Rightarrow> js_error + string" where
  \<open>mobile_links links = each (link_item ''" class="mobile-menu-link">'') links\<close>

definition navbar_markup :: "string \<Rightarrow> string \<Rightarrow> string" where
  \<open>navbar_markup desktopNavLinks mobileNavLinks =
     ''\<newline>'' @
     ''            <nav class="navbar">\<newline>'' @
     ''                <div class="container navbar-content">\<newline>'' @
     ''                    <div class="navbar-brand">'' @
     brandName siteConfig @
     ''</div>\<newline>'' @
     ''                    \<newline>'' @
     ''                    <!-- Desktop Navigation -->\<newline>'' @
     ''                    <ul class="navbar-nav">\<newline>'' @
     ''                        '' @
     desktopNavLinks @
     ''\<newline>'' @
     ''                    </ul>\<newline>'' @
     ''                    \<newline>'' @
     ''                    <!-- Theme Toggle & Mobile Menu Button -->\<newline>'' @
     ''                    <div style="display: flex; align-items: center; gap: var(--space-3);">\<newline>'' @
     ''                        <button class="theme-toggle" id="themeToggle" aria-label="Toggle dark mode">\<newline>'' @
     ''                            <ion-icon id="themeIcon" name="moon-outline" style="font-size:1.2rem; vertical-align:middle;"></ion-icon>\<newline>'' @
     ''                            <span id="themeText">Dark</span>\<newline>'' @
     ''                        </button>\<newline>'' @
     ''                        <button class="navbar-toggle" id="mobileMenuToggle" aria-label="Open menu">\<newline>'' @
     ''                            <ion-icon id="mobileMenuIcon" name="menu-outline" style="font-size:1.4rem;"></ion-icon>\<newline>'' @
     ''                        </button>\<newline>'' @
     ''                    </div>\<newline>'' @
     ''                </div>\<newline>'' @
     ''            </nav>\<newline>'' @
     ''\<newline>'' @
     ''            <!-- Mobile Menu Overlay -->\<newline>'' @
     ''            <div class="mobile-menu-overlay" id="mobileMenuOverlay"></div>\<newline>'' @
     ''\<newline>'' @
     ''            <!-- Mobile Menu Drawer -->\<newline>'' @
     ''            <div class="mobile-menu" id="mobileMenu">\<newline>'' @
     ''                <div class="mobile-menu-header">\<newline>'' @
     ''                    <div class="mobile-menu-brand">'' @
     brandName siteConfig @
     ''</div>\<newline>'' @
     ''                    <button class="mobile-menu-close" id="mobileMenuClose" aria-label="Close menu">\<newline>'' @
     ''                        <ion-icon id="mobileCloseIcon" name="close-outline" style="font-size:1.2rem;"></ion-icon>\<newline>'' @
     ''                    </button>\<newline>'' @
     ''                </div>\<newline>'' @
     ''                <ul class="mobile-menu-nav">\<newline>'' @
     ''                    '' @
     mobileNavLinks @
     ''\<newline>'' @
     ''                </ul>\<newline>'' @
     ''                <div class="mobile-menu-footer">\<newline>'' @
     ''                    <button class="theme-toggle" id="mobileThemeToggle" aria-label="Toggle dark mode" style="width: 100%; display:flex; align-items:center; justify-content:center; gap: .5rem;">\<newline>'' @
     ''                        <ion-icon id="mobileThemeIcon" name="moon-outline" style="font-size:1.1rem;"></ion-icon>\<newline>'' @
     ''                        <span id="mobileThemeText">Dark Mode</span>\<newline>'' @
     ''                    </button>\<newline>'' @
     ''                </div>\<newline>'' @
     ''            </div>\<newline>'' @
     ''        ''\<close>

definition MsuNavbar_render :: "json list \<Rightarrow> js_error + string" where
  "MsuNavbar_render links =
     and_then (desktop_links links) (\<lambda>desktopNavLinks.
     and_then (mobile_links links) (\<lambda>mobileNavLinks.
       Inr (navbar_markup desktopNavLinks mobileNavLinks)))"

subsection \<open>The theme flag\<close>

text \<open>
  The page state the navbar reads and writes: the \<open>data-theme\<close> attribute of the document
  element, the item \<open>theme\<close> of \<open>localStorage\<close>, and the icon names and labels of the two
  toggle buttons of the navbar's own markup.
\<close>

record page =
  data_theme :: "string option"
  stored_theme :: "string option"
  themeIcon :: string
  themeText :: string
  mobileThemeIcon :: string
  mobileThemeText :: string

definition updateThemeButtons :: "string \<Rightarrow> page \<Rightarrow> page" where
  "updateThemeButtons theme p =
     (let iconName = (if theme = ''dark'' then ''sunny-outline'' else ''moon-outline'');
          text = (if theme = ''dark'' then ''Light'' else ''Dark'')
      in p\<lparr>themeIcon := iconName, themeText := text,
             mobileThemeIcon := iconName, mobileThemeText := text @ '' Mode''\<rparr>)"

text \<open>The first three statements of \<open>setupThemeToggle\<close>: the read of the saved theme.\<close>

definition setupThemeToggle :: "page \<Rightarrow> page" where
  "setupThemeToggle p =
     (let currentTheme = or_default (stored_theme p) ''light''
      in updateThemeButtons currentTheme (p\<lparr>data_theme := Some currentTheme\<rparr>))"

text \<open>The click handler \<open>toggleTheme\<close> that \<open>setupThemeToggle\<close> installs on both buttons.\<close>

definition toggleTheme :: "page \<Rightarrow> page" where
  "toggleTheme p =
     (let newTheme = (if data_theme p = Some ''light'' then ''dark'' else ''light'')
      in updateThemeButtons newTheme (p\<lparr>data_theme := Some newTheme, stored_theme := Some newTheme\<rparr>))"

text \<open>
  Assigning the markup puts the buttons in the state the template gives them;
  \<open>attachEventListeners\<close> then ends with \<open>setupThemeToggle\<close>.
\<close>

definition fresh_buttons :: "page \<Rightarrow> page" where
  "fresh_buttons p =
     p\<lparr>themeIcon := ''moon-outline'', themeText := ''Dark'',
       mobileThemeIcon := ''moon-outline'', mobileThemeText := ''Dark Mode''\<rparr>"

text \<open>
  \<open>MsuNavbar.connectedCallback\<close>, with the module constant \<open>defaultSiteLinks\<close> passed as
  \<open>site\<close>: the exception thrown, or the markup and the page state afterwards.
\<close>

definition navbar_connected :: "json list \<Rightarrow> host \<Rightarrow> element \<Rightarrow> page \<Rightarrow> js_error + string \<times> page" where
  "navbar_connected site H el p =
     and_then (page_links H el) (\<lambda>pageLinks.
     and_then (all_links site pageLinks) (\<lambda>allLinks.
     and_then (MsuNavbar_render allLinks) (\<lambda>html.
       Inr (html, setupThemeToggle (fresh_buttons p)))))"

definition MsuNavbar_connectedCallback :: "host \<Rightarrow> element \<Rightarrow> page \<Rightarrow> js_error + string \<times> page" where
  "MsuNavbar_connectedCallback = navbar_connected defaultSiteLinks"

subsection \<open>The footer\<close>

fun includes_str :: "string \<Rightarrow> string \<Rightarrow> bool" where
  "includes_str [] p = (p = [])"
| "includes_str (c # cs) p = (startsWith (c # cs) p \<or> includes_str cs p)"

text \<open>
  \<open>link.href.includes('#home')\<close>: a string searches for the substring and an array for an
  element equal to it; \<open>undefined\<close> and \<open>null\<close> have no properties to read, and no other
  parsed value has a callable \<open>includes\<close>.
\<close>

fun href_includes :: "json option \<Rightarrow> string \<Rightarrow> js_error + bool" where
  "href_includes (Some (JStr s)) p = Inr (includes_str s p)"
| "href_includes (Some (JArr xs)) p = Inr (JStr p \<in> set xs)"
| "href_includes v p = Inl TypeError"

text \<open>The callback of the footer's \<open>filter\<close>.\<close>

definition quick_link :: "json \<Rightarrow> js_error + bool" where
  "quick_link link =
     and_then (Get link ''href'') (\<lambda>h.
     and_then (href_includes h ''#home'') (\<lambda>i.
       Inr (\<not> i \<and> h \<noteq> Some (JStr ''index.html''))))"

fun filter_links :: "(json \<Rightarrow> js_error + bool) \<Rightarrow> json list \<Rightarrow> js_error + json list" where
  "filter_links f [] = Inr []"
| "filter_links f (x # xs) =
     and_then (f x) (\<lambda>keep.
     and_then (filter_links f xs) (\<lambda>r. Inr (if keep then x # r else r)))"

definition quick_links :: "json list \<Rightarrow> js_error + string" where
  \<open>quick_links links =
     each (link_item
       ''" style="color: var(--color-text-secondary); font-size: var(--font-size-sm);">'') links\<close>

definition footer_markup :: "host \<Rightarrow> string \<Rightarrow> string" where
  \<open>footer_markup H quickLinks =
     ''\<newline>'' @
     ''            <footer class="bg-secondary" style="padding: var(--space-12) 0; margin-top: var(--space-16);">\<newline>'' @
     ''                <div class="container">\<newline>'' @
     ''                    <div class="grid grid-3">\<newline>'' @
     ''                        <div>\<newline>'' @
     ''                            <h4 style="color: var(--color-primary); margin-bottom: var(--space-4);">MSU Science Olympiad</h4>\<newline>'' @
     ''                            <p style="color: var(--color-text-secondary); font-size: var(--font-size-sm);">\<newline>'' @
     ''                                '' @
     description siteConfig @
     ''\<newline>'' @
     ''                            </p>\<newline>'' @
     ''                        </div>\<newline>'' @
     ''                        <div>\<newline>'' @
     ''                            <h5 style="margin-bottom: var(--space-3);">Quick Links</h5>\<newline>'' @
     ''                            <ul style="list-style: none; display: flex; flex-direction: column; gap: var(--space-2);">\<newline>'' @
     ''                                '' @
     quickLinks @
     ''\<newline>'' @
     ''                            </ul>\<newline>'' @
     ''                        </div>\<newline>'' @
     ''                        <div>\<newline>'' @
     ''                            <h5 style="margin-bottom: var(--space-3);">Connect</h5>\<newline>'' @
     ''                            <p style="color: var(--color-text-secondary); font-size: var(--font-size-sm);">\<newline>'' @
     ''                                Email: <a href="mailto:'' @
     email siteConfig @
     ''">'' @
     email siteConfig @
     ''</a><br>\<newline>'' @
     ''                                Follow us on social media for updates and announcements.\<newline>'' @
     ''                            </p>\<newline>'' @
     ''                        </div>\<newline>'' @
     ''                    </div>\<newline>'' @
     ''                    <div style="text-align: center; margin-top: var(--space-8); padding-top: var(--space-6); border-top: 1px solid var(--color-border);">\<newline>'' @
     ''                        <p style="color: var(--color-text-tertiary); font-size: var(--font-size-sm);">\<newline>'' @
     ''                            &copy; '' @
     full_year H @
     '' Michigan State University Science Olympiad\<newline>'' @
     ''                        </p>\<newline>'' @
     ''                    </div>\<newline>'' @
     ''                </div>\<newline>'' @
     ''            </footer>\<newline>'' @
     ''        ''\<close>

definition MsuFooter_render :: "host \<Rightarrow> json list \<Rightarrow> js_error + string" where
  "MsuFooter_render H links =
     and_then (quick_links links) (\<lambda>quickLinks. Inr (footer_markup H quickLinks))"

text \<open>The links the footer keeps, and \<open>MsuFooter.connectedCallback\<close> with \<open>site\<close> as above.\<close>

definition footer_links :: "json list \<Rightarrow> host \<Rightarrow> element \<Rightarrow> js_error + json list" where
  "footer_links site H el =
     and_then (page_links H el) (\<lambda>pageLinks.
     and_then (all_links site pageLinks) (\<lambda>merged.
       filter_links quick_link merged))"

definition footer_connected :: "json list \<Rightarrow> host \<Rightarrow> element \<Rightarrow> js_error + string" where
  "footer_connected site H el = and_then (footer_links site H el) (MsuFooter_render H)"

definition MsuFooter_connectedCallback :: "host \<Rightarrow> element \<Rightarrow> js_error + string" where
  "MsuFooter_connectedCallback = footer_connected defaultSiteLinks"

section \<open>Inputs for the examples\<close>

text \<open>
  An element without attributes, and a host for evaluating the examples below: its
  \<open>JSON.parse\<close> answers for the attribute texts the examples use, taken from the usage
  notes of the two files, and rejects every other text, as it must reject \<open>{not json\<close>.
\<close>

definition no_attributes :: element where
  "no_attributes = (\<lambda>name. None)"

definition badge_entry :: "string option \<Rightarrow> string option \<Rightarrow> json" where
  "badge_entry t c =
     JObj ((case t of None \<Rightarrow> [] | Some x \<Rightarrow> [(''text'', JStr x)]) @
           (case c of None \<Rightarrow> [] | Some x \<Rightarrow> [(''color'', JStr x)]))"

definition sample_parse :: "string \<Rightarrow> js_error + json" where
  \<open>sample_parse s =
     (if s = ''[]'' then Inr (JArr [])
      else if s = ''["A","B"]'' then Inr (JArr [JStr ''A'', JStr ''B''])
      else if s = ''"A"'' then Inr (JStr ''A'')
      else if s = ''[{"href":"#about","text":"About"}]'' then
        Inr (JArr [link_object ''#about'' ''About''])
      else if s = ''[{"text":"Build","color":"purple"},{"text":"Custom","color":"#ff0000"}]'' then
        Inr (JArr [badge_entry (Some ''Build'') (Some ''purple''),
                   badge_entry (Some ''Custom'') (Some ''#ff0000'')])
      else Inl SyntaxError)\<close>

definition sample_host :: host where
  "sample_host =
     \<lparr>json_parse = sample_parse, string_positive = (\<lambda>s. s = ''1''), full_year = ''2025''\<rparr>"

definition sample_page :: page where
  "sample_page =
     \<lparr>data_theme = None, stored_theme = None, themeIcon = [], themeText = [],
      mobileThemeIcon = [], mobileThemeText = []\<rparr>"

section \<open>The spec's wording of a badge\<close>

text \<open>
  Following the spec's words, for an entry with text and colour given as strings: a colour
  equal to a named variant gives \<open>variant=<name>\<close>, any other non-empty colour gives
  \<open>color=<value>\<close>, an empty or absent colour gives a default badge; the text is escaped.
\<close>

definition badge_open :: "string option \<Rightarrow> string" where
  \<open>badge_open color =
     (if color = Some ''purple'' \<or> color = Some ''orange'' then
        ''<msu-badge variant="'' @ the color @ ''">''
      else if color \<noteq> None \<and> color \<noteq> Some [] then ''<msu-badge color="'' @ the color @ ''">''
      else ''<msu-badge>'')\<close>

definition badge_element :: "string option \<Rightarrow> string \<Rightarrow> string" where
  "badge_element color text = badge_open color @ escapeText text @ ''</msu-badge>''"

section \<open>Basic facts\<close>

lemma and_then_Inr [simp]: "and_then (Inr v) f = f v"
  by (simp add: and_then_def)

lemma and_then_Inl [simp]: "and_then (Inl e) f = Inl e"
  by (simp add: and_then_def)

lemma escapeHtml_JStr [simp]: "escapeHtml (JStr s) = Inr (escapeText s)"
  by (simp add: escapeHtml_def)

lemma each_map:
  "(\<And>x. x \<in> set xs \<Longrightarrow> f (g x) = Inr (h x)) \<Longrightarrow> each f (map g xs) = Inr (concat (map h xs))"
  by (induction xs) simp_all

section \<open>Alpha blending\<close>

lemma addAlpha_rgb_example:
  "addAlpha ''rgb(255,0,0)'' alpha = ''rgba(255, 0, 0, '' @ alpha @ '')''"
  by (simp add: addAlpha_def startsWith_def is_digit_def)

lemma addAlpha_hex_example: "addAlpha ''#3b82f6'' ''0.1'' = ''rgba(59, 130, 246, 0.1)''"
  by code_simp

lemma addAlpha_fallback:
  "\<not> startsWith color ''#'' \<Longrightarrow> \<not> startsWith color ''rgb'' \<Longrightarrow> addAlpha color alpha = color"
  by (simp add: addAlpha_def)

text \<open>What the code does with the two forms it knows: six hex digits, and three digit runs.\<close>

lemma hex_value_char:
  "hex_value c = Some v \<Longrightarrow>
     \<not> white_space c \<and> c \<noteq> CHR ''-'' \<and> c \<noteq> CHR ''+'' \<and> c \<noteq> CHR ''x'' \<and> c \<noteq> CHR ''X''"
  by (auto simp: hex_value_def white_space_def split: if_splits)

lemma parseInt16_two:
  assumes "hex_value a = Some x" and "hex_value b = Some y"
  shows "parseInt16 [a, b] = Some (int (16 * x + y))"
  using hex_value_char [OF assms(1)] hex_value_char [OF assms(2)] assms
  by (simp add: parseInt16_def Let_def)

lemma addAlpha_six_digit_hex:
  assumes "hex_value r1 = Some x1" "hex_value r2 = Some x2" "hex_value g1 = Some y1"
    "hex_value g2 = Some y2" "hex_value b1 = Some z1" "hex_value b2 = Some z2"
  shows "addAlpha [CHR ''#'', r1, r2, g1, g2, b1, b2] alpha =
     ''rgba('' @ show_nat (16 * x1 + x2) @ '', '' @ show_nat (16 * y1 + y2) @ '', '' @
       show_nat (16 * z1 + z2) @ '', '' @ alpha @ '')''"
proof -
  have n: "nat (16 * int a + int b) = 16 * a + b" for a b
    by linarith
  show ?thesis
    by (simp add: addAlpha_def startsWith_def substring_def number_text_def Let_def n
        parseInt16_two [OF assms(1,2)] parseInt16_two [OF assms(3,4)]
        parseInt16_two [OF assms(5,6)] del: show_nat.simps)
qed

lemma addAlpha_rgb_three_runs:
  "startsWith color ''rgb'' \<Longrightarrow> digit_runs color = a # b # c # rest \<Longrightarrow>
     addAlpha color alpha = ''rgba('' @ a @ '', '' @ b @ '', '' @ c @ '', '' @ alpha @ '')''"
  by (cases color) (auto simp: addAlpha_def startsWith_def Let_def)

text \<open>
  C6: a colour that is neither \<open>#rrggbb\<close> nor an rgb/rgba literal should come back
  unchanged. The three-digit hex colour \<open>#fff\<close> starts with \<open>#\<close>, so the code reads three
  two-character channels out of \<open>fff\<close>: \<open>ff\<close>, \<open>f\<close> and the empty string, and answers
  with a colour that has \<open>NaN\<close> for blue.
\<close>

theorem addAlpha_short_hex: "addAlpha ''#fff'' ''0.1'' = ''rgba(255, 15, NaN, 0.1)''"
  by code_simp

section \<open>The footer's quick links\<close>

text \<open>What the filter keeps of two lists of entries with an href and a text.\<close>

lemma quick_link_object:
  "quick_link (link_object h t) = Inr (\<not> includes_str h ''#home'' \<and> h \<noteq> ''index.html'')"
  by (simp add: quick_link_def link_object_def)

lemma filter_links_map:
  "(\<And>x. x \<in> set xs \<Longrightarrow> f (g x) = Inr (P x)) \<Longrightarrow>
     filter_links f (map g xs) = Inr (map g (filter P xs))"
  by (induction xs) simp_all

lemma footer_links_valid:
  assumes "page_links H el = Inr (JArr (map (\<lambda>(h, t). link_object h t) L2))"
  shows "footer_links (map (\<lambda>(h, t). link_object h t) L1) H el =
     Inr (map (\<lambda>(h, t). link_object h t)
            (filter (\<lambda>(h, t). \<not> includes_str h ''#home'' \<and> h \<noteq> ''index.html'') (L1 @ L2)))"
proof -
  have m: "map (\<lambda>(h, t). link_object h t) L1 @ map (\<lambda>(h, t). link_object h t) L2 =
      map (\<lambda>(h, t). link_object h t) (L1 @ L2)"
    by simp
  have f: "filter_links quick_link (map (\<lambda>(h, t). link_object h t) (L1 @ L2)) =
      Inr (map (\<lambda>(h, t). link_object h t)
            (filter (\<lambda>(h, t). \<not> includes_str h ''#home'' \<and> h \<noteq> ''index.html'') (L1 @ L2)))"
    by (rule filter_links_map) (auto simp: quick_link_object)
  show ?thesis
    unfolding footer_links_def assms
    by (simp only: and_then_Inr all_links_def spread.simps m f)
qed

text \<open>
  C3: the footer should leave out every link to the home page. Without page links the
  footer keeps both site links, the Home entry among them: the filter compares with
  \<open>index.html\<close>, and the site's Home link is \<open>/index.html\<close>.
\<close>

theorem footer_keeps_home:
  "footer_links defaultSiteLinks H no_attributes =
     Inr [link_object ''/index.html'' ''Home'', link_object ''/future.html'' ''Demo'']"
  by (simp add: footer_links_def page_links_def no_attributes_def truthy_attr_def all_links_def
      defaultSiteLinks_def link_object_def quick_link_def startsWith_def)

section \<open>The theme flag\<close>

text \<open>
  C8, as the claim states it, fails for the saved value: on a first visit nothing is saved
  and the setup leaves it so, with the attribute light. Two toggles bring the attribute
  back to light, and leave light saved where nothing was.
\<close>

theorem first_visit_toggle_twice:
  "data_theme (setupThemeToggle sample_page) = Some ''light''
   \<and> stored_theme (setupThemeToggle sample_page) = None
   \<and> data_theme (toggleTheme (toggleTheme (setupThemeToggle sample_page))) = Some ''light''
   \<and> stored_theme (toggleTheme (toggleTheme (setupThemeToggle sample_page))) = Some ''light''
   \<and> toggleTheme (toggleTheme (setupThemeToggle sample_page)) \<noteq> setupThemeToggle sample_page"
  by (simp add: setupThemeToggle_def toggleTheme_def updateThemeButtons_def or_default_def
      sample_page_def Let_def)

text \<open>
  C8, amended: from a page whose \<open>data-theme\<close> attribute is \<open>t\<close>, light or dark, one toggle
  sets the attribute and the saved theme to the other value, and a second toggle sets both
  to \<open>t\<close>. So the attribute is as before, and the saved theme is as before exactly when
  \<open>t\<close> was saved; where the buttons showed \<open>t\<close> too, as after the setup, the whole page
  state is as before.
\<close>

theorem toggle_twice:
  assumes "t = ''light'' \<or> t = ''dark''" and "data_theme p = Some t"
  shows "data_theme (toggleTheme p) = Some (if t = ''light'' then ''dark'' else ''light'')
    \<and> stored_theme (toggleTheme p) = Some (if t = ''light'' then ''dark'' else ''light'')
    \<and> data_theme (toggleTheme (toggleTheme p)) = Some t
    \<and> stored_theme (toggleTheme (toggleTheme p)) = Some t
    \<and> (stored_theme (toggleTheme (toggleTheme p)) = stored_theme p) = (stored_theme p = Some t)
    \<and> (stored_theme p = Some t \<and> updateThemeButtons t p = p \<longrightarrow>
         toggleTheme (toggleTheme p) = p)"
  using assms by (cases p) (auto simp: toggleTheme_def updateThemeButtons_def Let_def)

theorem toggle_twice_witness:
  "data_theme (setupThemeToggle (sample_page\<lparr>stored_theme := Some ''dark''\<rparr>)) = Some ''dark''
   \<and> stored_theme (setupThemeToggle (sample_page\<lparr>stored_theme := Some ''dark''\<rparr>)) = Some ''dark''
   \<and> data_theme (toggleTheme (setupThemeToggle (sample_page\<lparr>stored_theme := Some ''dark''\<rparr>)))
       = Some ''light''
   \<and> toggleTheme (toggleTheme (setupThemeToggle (sample_page\<lparr>stored_theme := Some ''dark''\<rparr>)))
       = setupThemeToggle (sample_page\<lparr>stored_theme := Some ''dark''\<rparr>)"
proof -
  let ?p = "setupThemeToggle (sample_page\<lparr>stored_theme := Some ''dark''\<rparr>)"
  have d: "data_theme ?p = Some ''dark''" and s: "stored_theme ?p = Some ''dark''"
    by (simp_all add: setupThemeToggle_def updateThemeButtons_def or_default_def
        sample_page_def Let_def)
  have b: "updateThemeButtons ''dark'' ?p = ?p"
    by (simp add: setupThemeToggle_def updateThemeButtons_def or_default_def
        sample_page_def Let_def)
  from toggle_twice [of "''dark''" ?p] d s b show ?thesis
    by simp
qed

text \<open>
  C9, as the claim states it, fails: a saved theme \<open>blue\<close> is neither light nor dark, and
  the setup applies it to the document as it is.
\<close>

theorem setup_applies_invalid_theme:
  "data_theme (setupThemeToggle (sample_page\<lparr>stored_theme := Some ''blue''\<rparr>)) = Some ''blue''"
  by (simp add: setupThemeToggle_def updateThemeButtons_def or_default_def sample_page_def Let_def)

text \<open>
  C9, amended: the read at setup gives the saved theme whenever it is a non-empty string, so
  light or dark when it is one of them, and light when nothing or the empty string is
  saved; the \<open>data-theme\<close> attribute is light or dark exactly when the saved theme is
  absent, empty, light or dark.
\<close>

theorem setup_theme_read:
  "(stored_theme p = Some ''light'' \<longrightarrow> data_theme (setupThemeToggle p) = Some ''light'')
   \<and> (stored_theme p = Some ''dark'' \<longrightarrow> data_theme (setupThemeToggle p) = Some ''dark'')
   \<and> (stored_theme p = None \<or> stored_theme p = Some [] \<longrightarrow>
        data_theme (setupThemeToggle p) = Some ''light'')
   \<and> (stored_theme p = Some v \<and> v \<noteq> [] \<longrightarrow> data_theme (setupThemeToggle p) = Some v)
   \<and> ((data_theme (setupThemeToggle p) = Some ''light''
        \<or> data_theme (setupThemeToggle p) = Some ''dark'')
       = (stored_theme p \<in> {None, Some [], Some ''light'', Some ''dark''}))"
  by (cases "stored_theme p")
     (auto simp: setupThemeToggle_def updateThemeButtons_def or_default_def Let_def)

theorem setup_theme_read_witness:
  "stored_theme (sample_page\<lparr>stored_theme := Some ''dark''\<rparr>) = Some ''dark''
   \<and> data_theme (setupThemeToggle (sample_page\<lparr>stored_theme := Some ''dark''\<rparr>)) = Some ''dark''
   \<and> stored_theme sample_page = None
   \<and> data_theme (setupThemeToggle sample_page) = Some ''light''"
  using setup_theme_read [of "sample_page\<lparr>stored_theme := Some ''dark''\<rparr>"]
    setup_theme_read [of sample_page]
  by (simp add: sample_page_def)

section \<open>Badge styles\<close>

text \<open>
  C5, as the claim states it, fails: an empty \<open>color\<close> attribute is present and still
  does not override the variant. With \<open>color=""\<close> the purple badge is styled as without
  any colour, and the purple and the orange badge differ.
\<close>

theorem empty_color_does_not_override:
  "getBadgeStyles (Some ''purple'') (Some []) False = getBadgeStyles (Some ''purple'') None False
   \<and> getBadgeStyles (Some ''purple'') (Some []) False
       \<noteq> getBadgeStyles (Some ''orange'') (Some []) False"
  by (simp add: getBadgeStyles_def truthy_attr_def)

text \<open>
  C5, amended: a \<open>color\<close> attribute that is present and not empty overrides any variant,
  and the styles are the base styles followed by the custom colour rule; with the colour
  absent or empty and no recognised variant the default green rule follows the base styles:
  background \<open>#dcfce7\<close> with text \<open>#1a9659\<close> in the light theme, background \<open>#1a2622\<close>
  with text \<open>#4ade80\<close> in the dark theme.
\<close>

theorem badge_style_precedence:
  \<open>(truthy_attr color \<longrightarrow>
      getBadgeStyles variant color dark = getBadgeStyles None color dark
      \<and> getBadgeStyles variant color dark =
          base_styles @
          ''\<newline>'' @
          ''                .badge {\<newline>'' @
          ''                    '' @ getCustomColorStyles (the color) dark @ ''\<newline>'' @
          ''                }\<newline>'' @
          ''            '')
   \<and> (\<not> truthy_attr color \<and> variant \<noteq> Some ''purple'' \<and> variant \<noteq> Some ''orange'' \<longrightarrow>
        getBadgeStyles variant color dark =
          base_styles @
          (if dark then
             ''\<newline>'' @
             ''                    .badge {\<newline>'' @
             ''                        background-color: #1a2622;\<newline>'' @
             ''                        color: #4ade80;\<newline>'' @
             ''                        border: none;\<newline>'' @
             ''                    }\<newline>'' @
             ''                ''
           else
             ''\<newline>'' @
             ''                    .badge {\<newline>'' @
             ''                        background-color: #dcfce7;\<newline>'' @
             ''                        color: #1a9659;\<newline>'' @
             ''                        border: none;\<newline>'' @
             ''                    }\<newline>'' @
             ''                ''))\<close>
  by (simp add: getBadgeStyles_def)

theorem badge_style_precedence_witness:
  \<open>truthy_attr (Some ''#3b82f6'')
   \<and> getBadgeStyles (Some ''purple'') (Some ''#3b82f6'') False
       = getBadgeStyles None (Some ''#3b82f6'') False
   \<and> \<not> truthy_attr None
   \<and> getBadgeStyles (Some ''green'') None False =
        base_styles @
        ''\<newline>'' @
        ''                    .badge {\<newline>'' @
        ''                        background-color: #dcfce7;\<newline>'' @
        ''                        color: #1a9659;\<newline>'' @
        ''                        border: none;\<newline>'' @
        ''                    }\<newline>'' @
        ''                ''\<close>
  using badge_style_precedence [of "Some ''#3b82f6''" "Some ''purple''" False]
    badge_style_precedence [of None "Some ''green''" False]
  by (simp add: truthy_attr_def)

section \<open>The card's markup\<close>

lemma or_default_None [simp]: "or_default None d = d"
  by (simp add: or_default_def)

lemma parse_or_empty_ok: "json_parse H src = Inr v \<Longrightarrow> parse_or_empty H m src = (v, [])"
  by (simp add: parse_or_empty_def)

lemma parse_or_empty_fail:
  "json_parse H src = Inl e \<Longrightarrow> parse_or_empty H m src = (JArr [], [(m, src)])"
  by (simp add: parse_or_empty_def)

lemma color_badge_entry:
  "color_badge (badge_entry t c) = Inr (badge_element c (or_default t []))"
  by (cases t; cases c)
     (auto simp: color_badge_def badge_entry_def js_or_def badge_element_def badge_open_def
        or_default_def Let_def)

lemma plain_badge_string: "plain_badge (JStr s) = Inr (badge_element None s)"
  by (simp add: plain_badge_def badge_element_def badge_open_def)

lemma card_badges_typed:
  \<open>card_badges H (JArr (map (\<lambda>(t, c). badge_entry t c) cbs)) (JArr (map JStr bs)) =
     Inr (if cbs = [] \<and> bs = [] then []
          else ''<div class="card-badges">'' @
               concat (map (\<lambda>(t, c). badge_element c (or_default t [])) cbs) @
               concat (map (badge_element None) bs) @ ''</div>'')\<close>
proof -
  have cb: "each color_badge (map (\<lambda>(t, c). badge_entry t c) cbs) =
      Inr (concat (map (\<lambda>(t, c). badge_element c (or_default t [])) cbs))"
    by (rule each_map) (auto simp: color_badge_entry)
  have pb: "each plain_badge (map JStr bs) = Inr (concat (map (badge_element None) bs))"
    by (rule each_map) (simp add: plain_badge_string)
  show ?thesis
    by (simp add: card_badges_def cb pb)
qed

lemma escapeText_no_angle: "CHR ''<'' \<notin> set (escapeText s) \<and> CHR ''>'' \<notin> set (escapeText s)"
  by (induction s) (auto simp: escapeText_def escape_char_def)

text \<open>
  The card's own recovery from a parse failure: a list that does not parse renders as the
  absent list does, and one warning is logged.
\<close>

lemma card_malformed_badges_recovered:
  assumes "json_parse H (or_default (el ''badges'') ''[]'') = Inl e"
    and "json_parse H ''[]'' = Inr (JArr [])"
  shows "MsuCard_render H el =
    ((''Failed to parse badges JSON:'', or_default (el ''badges'') ''[]'')
       # fst (MsuCard_render H (el(''badges'' := None))),
     snd (MsuCard_render H (el(''badges'' := None))))"
  unfolding MsuCard_render_def Let_def
  by (simp add: parse_or_empty_fail [OF assms(1)] parse_or_empty_ok [OF assms(2)] split_def)

lemma card_malformed_color_badges_recovered:
  assumes "json_parse H (or_default (el ''color-badges'') ''[]'') = Inl e"
    and "json_parse H ''[]'' = Inr (JArr [])"
  shows "MsuCard_render H el =
    (fst (MsuCard_render H (el(''color-badges'' := None)))
       @ [(''Failed to parse color-badges JSON:'', or_default (el ''color-badges'') ''[]'')],
     snd (MsuCard_render H (el(''color-badges'' := None))))"
  unfolding MsuCard_render_def Let_def
  by (simp add: parse_or_empty_fail [OF assms(1)] parse_or_empty_ok [OF assms(2)] split_def)

text \<open>
  C2, as the claim states it, fails for \<open>href\<close>: the card passes it through \<open>escapeHtml\<close>
  as it does the title, so the \<open>&\<close> of an address is written \<open>&amp;\<close>.
\<close>

theorem card_href_is_escaped:
  \<open>snd (MsuCard_render sample_host (no_attributes(''href'' \<mapsto> ''/e?a=1&b=2''))) =
     Inr ''<a href="/e?a=1&amp;b=2" class="card-link" style="text-decoration: none; color: inherit; display: block;"><div class="card"><h4 class="card-title">Untitled</h4></div></a>''
   \<and> snd (MsuCard_render sample_host (no_attributes(''href'' \<mapsto> ''/e?a=1&b=2''))) \<noteq>
     Inr ''<a href="/e?a=1&b=2" class="card-link" style="text-decoration: none; color: inherit; display: block;"><div class="card"><h4 class="card-title">Untitled</h4></div></a>''\<close>
  unfolding MsuCard_render_def Let_def
  by (simp add: no_attributes_def or_default_def truthy_attr_def parse_or_empty_def
      sample_host_def sample_parse_def card_badges_def escapeText_def escape_char_def)

text \<open>
  C2, amended: in the card's markup the title, the description, each badge's text and the
  href are HTML-escaped before insertion, and the icon is inserted as it is. The escaped
  text holds neither \<open><\<close> nor \<open>>\<close>, so the title \<open><script>\<close> appears as
  \<open>&lt;script&gt;\<close>. The badge lists are those of the documented shapes: strings, and
  entries with text and colour.
\<close>

theorem card_markup_escaping:
  assumes "json_parse H (or_default (el ''badges'') ''[]'') = Inr (JArr (map JStr bs))"
    and "json_parse H (or_default (el ''color-badges'') ''[]'') =
          Inr (JArr (map (\<lambda>(t, c). badge_entry t c) cbs))"
  shows \<open>MsuCard_render H el =
    ([], Inr (
      (if truthy_attr (el ''href'') then
         ''<a href="'' @ escapeText (the (el ''href'')) @
         ''" class="card-link" style="text-decoration: none; color: inherit; display: block;">''
       else []) @
      ''<div class="'' @ ''card'' @ (if el ''variant'' = Some ''green'' then '' card-green'' else []) @
      ''">'' @
      (if truthy_attr (el ''icon'') then
         ''<div style="font-size: 3rem; margin-bottom: var(--space-4);">\<newline>'' @
         ''                <ion-icon name="'' @ the (el ''icon'') @
         ''" style="font-size:3rem;"></ion-icon>\<newline>'' @
         ''            </div>''
       else []) @
      ''<h4 class="card-title">'' @ escapeText (or_default (el ''title'') ''Untitled'') @ ''</h4>'' @
      (if or_default (el ''description'') [] \<noteq> [] then
         ''<p class="card-text">'' @ escapeText (or_default (el ''description'') []) @ ''</p>''
       else []) @
      (if cbs = [] \<and> bs = [] then []
       else ''<div class="card-badges">'' @
            concat (map (\<lambda>(t, c). badge_open c @ escapeText (or_default t []) @ ''</msu-badge>'') cbs) @
            concat (map (\<lambda>t. ''<msu-badge>'' @ escapeText t @ ''</msu-badge>'') bs) @
            ''</div>'') @
      ''</div>'' @
      (if truthy_attr (el ''href'') then ''</a>'' else [])))
    \<and> CHR ''<'' \<notin> set (escapeText s) \<and> CHR ''>'' \<notin> set (escapeText s)
    \<and> escapeText ''<script>'' = ''&lt;script&gt;''\<close>
proof -
  have b: "(\<lambda>(t, c). badge_element c (or_default t [])) =
      (\<lambda>(t, c). badge_open c @ escapeText (or_default t []) @ ''</msu-badge>'')"
    by (simp add: badge_element_def fun_eq_iff)
  have p: "badge_element None = (\<lambda>t. ''<msu-badge>'' @ escapeText t @ ''</msu-badge>'')"
    by (simp add: badge_element_def badge_open_def fun_eq_iff)
  have e: "escapeText ''<script>'' = ''&lt;script&gt;''"
    by (simp add: escapeText_def escape_char_def)
  have r: \<open>MsuCard_render H el = ([], Inr (
      (if truthy_attr (el ''href'') then
         ''<a href="'' @ escapeText (the (el ''href'')) @
         ''" class="card-link" style="text-decoration: none; color: inherit; display: block;">''
       else []) @
      ''<div class="'' @ ''card'' @ (if el ''variant'' = Some ''green'' then '' card-green'' else []) @
      ''">'' @
      (if truthy_attr (el ''icon'') then
         ''<div style="font-size: 3rem; margin-bottom: var(--space-4);">\<newline>'' @
         ''                <ion-icon name="'' @ the (el ''icon'') @
         ''" style="font-size:3rem;"></ion-icon>\<newline>'' @
         ''            </div>''
       else []) @
      ''<h4 class="card-title">'' @ escapeText (or_default (el ''title'') ''Untitled'') @ ''</h4>'' @
      (if or_default (el ''description'') [] \<noteq> [] then
         ''<p class="card-text">'' @ escapeText (or_default (el ''description'') []) @ ''</p>''
       else []) @
      (if cbs = [] \<and> bs = [] then []
       else ''<div class="card-badges">'' @
            concat (map (\<lambda>(t, c). badge_element c (or_default t [])) cbs) @
            concat (map (badge_element None) bs) @
            ''</div>'') @
      ''</div>'' @
      (if truthy_attr (el ''href'') then ''</a>'' else [])))\<close>
    unfolding MsuCard_render_def Let_def
    by (simp add: parse_or_empty_ok [OF assms(1)] parse_or_empty_ok [OF assms(2)]
        card_badges_typed)
  show ?thesis
    using r e escapeText_no_angle [of s] by (simp only: b p) simp
qed

theorem card_markup_escaping_witness:
  \<open>json_parse sample_host ''["A","B"]'' = Inr (JArr (map JStr [''A'', ''B'']))
   \<and> json_parse sample_host ''[]'' = Inr (JArr [])
   \<and> MsuCard_render sample_host
        (no_attributes(''title'' \<mapsto> ''<script>'', ''href'' \<mapsto> ''/e?a=1&b=2'',
           ''icon'' \<mapsto> ''planet"'', ''badges'' \<mapsto> ''["A","B"]'')) =
      ([], Inr (''<a href="/e?a=1&amp;b=2" class="card-link" style="text-decoration: none; color: inherit; display: block;">'' @
         ''<div class="card">'' @
         ''<div style="font-size: 3rem; margin-bottom: var(--space-4);">\<newline>'' @
         ''                <ion-icon name="planet"" style="font-size:3rem;"></ion-icon>\<newline>'' @
         ''            </div>'' @
         ''<h4 class="card-title">&lt;script&gt;</h4>'' @
         ''<div class="card-badges"><msu-badge>A</msu-badge><msu-badge>B</msu-badge></div>'' @
         ''</div></a>''))\<close>
proof -
  let ?el = \<open>no_attributes(''title'' \<mapsto> ''<script>'', ''href'' \<mapsto> ''/e?a=1&b=2'',
           ''icon'' \<mapsto> ''planet"'', ''badges'' \<mapsto> ''["A","B"]'')\<close>
  have a: \<open>json_parse sample_host (or_default (?el ''badges'') ''[]'') =
      Inr (JArr (map JStr [''A'', ''B'']))\<close>
    by (simp add: sample_host_def sample_parse_def or_default_def)
  have c: "json_parse sample_host (or_default (?el ''color-badges'') ''[]'') =
      Inr (JArr (map (\<lambda>(t, c). badge_entry t c) []))"
    by (simp add: sample_host_def sample_parse_def no_attributes_def)
  have p: \<open>json_parse sample_host ''["A","B"]'' = Inr (JArr (map JStr [''A'', ''B'']))
      \<and> json_parse sample_host ''[]'' = Inr (JArr [])\<close>
    by (simp add: sample_host_def sample_parse_def)
  from card_markup_escaping [where H = sample_host and el = ?el and bs = "[''A'', ''B'']"
      and cbs = "[]" and s = "''<script>''", OF a c] p show ?thesis
    by (simp add: no_attributes_def or_default_def truthy_attr_def escapeText_def
        escape_char_def)
qed

lemma card_render_typed:
  assumes "json_parse H (or_default (el ''badges'') ''[]'') = Inr (JArr (map JStr bs))"
    and "json_parse H (or_default (el ''color-badges'') ''[]'') =
          Inr (JArr (map (\<lambda>(t, c). badge_entry t c) cbs))"
  shows \<open>MsuCard_render H el = ([], Inr (
      (if truthy_attr (el ''href'') then
         ''<a href="'' @ escapeText (the (el ''href'')) @
         ''" class="card-link" style="text-decoration: none; color: inherit; display: block;">''
       else []) @
      ''<div class="'' @ ''card'' @ (if el ''variant'' = Some ''green'' then '' card-green'' else []) @
      ''">'' @
      (if truthy_attr (el ''icon'') then
         ''<div style="font-size: 3rem; margin-bottom: var(--space-4);">\<newline>'' @
         ''                <ion-icon name="'' @ the (el ''icon'') @
         ''" style="font-size:3rem;"></ion-icon>\<newline>'' @
         ''            </div>''
       else []) @
      ''<h4 class="card-title">'' @ escapeText (or_default (el ''title'') ''Untitled'') @ ''</h4>'' @
      (if or_default (el ''description'') [] \<noteq> [] then
         ''<p class="card-text">'' @ escapeText (or_default (el ''description'') []) @ ''</p>''
       else []) @
      (if cbs = [] \<and> bs = [] then []
       else ''<div class="card-badges">'' @
            concat (map (\<lambda>(t, c). badge_element c (or_default t [])) cbs) @
            concat (map (badge_element None) bs) @
            ''</div>'') @
      ''</div>'' @
      (if truthy_attr (el ''href'') then ''</a>'' else [])))\<close>
  unfolding MsuCard_render_def Let_def
  by (simp add: parse_or_empty_ok [OF assms(1)] parse_or_empty_ok [OF assms(2)]
      card_badges_typed)

text \<open>
  C4: with the two attributes holding lists of the documented shapes, the card's markup has
  one badges container, which holds the badges of the colour list first and those of the
  plain list after them, each list in its own order. The code's badge for an entry is the
  one the spec words: a colour equal to purple or orange gives \<open>variant\<close>, any other
  non-empty colour gives \<open>color\<close>, an empty or absent colour gives a default badge. So
  \<open>badges='["A","B"]'\<close> alone renders two default badges, A then B.
\<close>

theorem card_badges_order:
  \<open>(json_parse H (or_default (el ''badges'') ''[]'') = Inr (JArr (map JStr bs))
     \<and> json_parse H (or_default (el ''color-badges'') ''[]'') =
          Inr (JArr (map (\<lambda>(t, c). badge_entry t c) cbs))
     \<longrightarrow> MsuCard_render H el = ([], Inr (
      (if truthy_attr (el ''href'') then
         ''<a href="'' @ escapeText (the (el ''href'')) @
         ''" class="card-link" style="text-decoration: none; color: inherit; display: block;">''
       else []) @
      ''<div class="'' @ ''card'' @ (if el ''variant'' = Some ''green'' then '' card-green'' else []) @
      ''">'' @
      (if truthy_attr (el ''icon'') then
         ''<div style="font-size: 3rem; margin-bottom: var(--space-4);">\<newline>'' @
         ''                <ion-icon name="'' @ the (el ''icon'') @
         ''" style="font-size:3rem;"></ion-icon>\<newline>'' @
         ''            </div>''
       else []) @
      ''<h4 class="card-title">'' @ escapeText (or_default (el ''title'') ''Untitled'') @ ''</h4>'' @
      (if or_default (el ''description'') [] \<noteq> [] then
         ''<p class="card-text">'' @ escapeText (or_default (el ''description'') []) @ ''</p>''
       else []) @
      (if cbs = [] \<and> bs = [] then []
       else ''<div class="card-badges">'' @
            concat (map (\<lambda>(t, c). badge_element c (or_default t [])) cbs) @
            concat (map (badge_element None) bs) @
            ''</div>'') @
      ''</div>'' @
      (if truthy_attr (el ''href'') then ''</a>'' else []))))
   \<and> card_badges H (JArr (map (\<lambda>(t, c). badge_entry t c) cbs)) (JArr (map JStr bs)) =
     Inr (if cbs = [] \<and> bs = [] then []
          else ''<div class="card-badges">'' @
               concat (map (\<lambda>(t, c). badge_element c (or_default t [])) cbs) @
               concat (map (badge_element None) bs) @ ''</div>'')
   \<and> color_badge (badge_entry t c) = Inr (badge_element c (or_default t []))
   \<and> plain_badge (JStr x) = Inr (badge_element None x)
   \<and> badge_element (Some ''purple'') x = ''<msu-badge variant="purple">'' @ escapeText x @ ''</msu-badge>''
   \<and> badge_element (Some ''orange'') x = ''<msu-badge variant="orange">'' @ escapeText x @ ''</msu-badge>''
   \<and> (v \<noteq> [] \<and> v \<noteq> ''purple'' \<and> v \<noteq> ''orange'' \<longrightarrow>
        badge_element (Some v) x = ''<msu-badge color="'' @ v @ ''">'' @ escapeText x @ ''</msu-badge>'')
   \<and> badge_element (Some []) x = ''<msu-badge>'' @ escapeText x @ ''</msu-badge>''
   \<and> badge_element None x = ''<msu-badge>'' @ escapeText x @ ''</msu-badge>''
   \<and> (json_parse H ''["A","B"]'' = Inr (JArr [JStr ''A'', JStr ''B'']) \<and> json_parse H ''[]'' = Inr (JArr [])
        \<longrightarrow> MsuCard_render H (no_attributes(''badges'' \<mapsto> ''["A","B"]'')) =
          ([], Inr ''<div class="card"><h4 class="card-title">Untitled</h4><div class="card-badges"><msu-badge>A</msu-badge><msu-badge>B</msu-badge></div></div>''))\<close>
proof -
  have ex: \<open>MsuCard_render H (no_attributes(''badges'' \<mapsto> ''["A","B"]'')) =
          ([], Inr ''<div class="card"><h4 class="card-title">Untitled</h4><div class="card-badges"><msu-badge>A</msu-badge><msu-badge>B</msu-badge></div></div>'')\<close>
    if a: \<open>json_parse H ''["A","B"]'' = Inr (JArr [JStr ''A'', JStr ''B''])\<close>
      and e: "json_parse H ''[]'' = Inr (JArr [])"
    unfolding MsuCard_render_def Let_def
    by (simp add: no_attributes_def or_default_def truthy_attr_def parse_or_empty_ok [OF a]
        parse_or_empty_ok [OF e] card_badges_def plain_badge_def escapeText_def escape_char_def)
  have rest: \<open>card_badges H (JArr (map (\<lambda>(t, c). badge_entry t c) cbs)) (JArr (map JStr bs)) =
     Inr (if cbs = [] \<and> bs = [] then []
          else ''<div class="card-badges">'' @
               concat (map (\<lambda>(t, c). badge_element c (or_default t [])) cbs) @
               concat (map (badge_element None) bs) @ ''</div>'')
   \<and> color_badge (badge_entry t c) = Inr (badge_element c (or_default t []))
   \<and> plain_badge (JStr x) = Inr (badge_element None x)
   \<and> badge_element (Some ''purple'') x = ''<msu-badge variant="purple">'' @ escapeText x @ ''</msu-badge>''
   \<and> badge_element (Some ''orange'') x = ''<msu-badge variant="orange">'' @ escapeText x @ ''</msu-badge>''
   \<and> (v \<noteq> [] \<and> v \<noteq> ''purple'' \<and> v \<noteq> ''orange'' \<longrightarrow>
        badge_element (Some v) x = ''<msu-badge color="'' @ v @ ''">'' @ escapeText x @ ''</msu-badge>'')
   \<and> badge_element (Some []) x = ''<msu-badge>'' @ escapeText x @ ''</msu-badge>''
   \<and> badge_element None x = ''<msu-badge>'' @ escapeText x @ ''</msu-badge>''\<close>
    by (simp add: card_badges_typed color_badge_entry plain_badge_string badge_element_def
        badge_open_def)
  show ?thesis
    using card_render_typed [of H el bs cbs] ex rest by blast
qed

theorem card_badges_order_witness:
  \<open>json_parse sample_host ''["A","B"]'' = Inr (JArr [JStr ''A'', JStr ''B''])
   \<and> json_parse sample_host ''[{"text":"Build","color":"purple"},{"text":"Custom","color":"#ff0000"}]'' =
       Inr (JArr [badge_entry (Some ''Build'') (Some ''purple''),
                  badge_entry (Some ''Custom'') (Some ''#ff0000'')])
   \<and> MsuCard_render sample_host
        (no_attributes(''badges'' \<mapsto> ''["A","B"]'',
           ''color-badges'' \<mapsto> ''[{"text":"Build","color":"purple"},{"text":"Custom","color":"#ff0000"}]'')) =
       ([], Inr ''<div class="card"><h4 class="card-title">Untitled</h4><div class="card-badges"><msu-badge variant="purple">Build</msu-badge><msu-badge color="#ff0000">Custom</msu-badge><msu-badge>A</msu-badge><msu-badge>B</msu-badge></div></div>'')
   \<and> json_parse sample_host ''[]'' = Inr (JArr [])
   \<and> MsuCard_render sample_host (no_attributes(''badges'' \<mapsto> ''["A","B"]'')) =
       ([], Inr ''<div class="card"><h4 class="card-title">Untitled</h4><div class="card-badges"><msu-badge>A</msu-badge><msu-badge>B</msu-badge></div></div>'')\<close>
proof -
  let ?el = \<open>no_attributes(''badges'' \<mapsto> ''["A","B"]'',
           ''color-badges'' \<mapsto> ''[{"text":"Build","color":"purple"},{"text":"Custom","color":"#ff0000"}]'')\<close>
  have a: \<open>json_parse sample_host (or_default (?el ''badges'') ''[]'') =
      Inr (JArr (map JStr [''A'', ''B'']))\<close>
    by (simp add: sample_host_def sample_parse_def or_default_def)
  have c: \<open>json_parse sample_host (or_default (?el ''color-badges'') ''[]'') =
      Inr (JArr (map (\<lambda>(t, c). badge_entry t c)
        [(Some ''Build'', Some ''purple''), (Some ''Custom'', Some ''#ff0000'')]))\<close>
    by (simp add: sample_host_def sample_parse_def or_default_def)
  have p: \<open>json_parse sample_host ''["A","B"]'' = Inr (JArr [JStr ''A'', JStr ''B''])
      \<and> json_parse sample_host ''[{"text":"Build","color":"purple"},{"text":"Custom","color":"#ff0000"}]'' =
       Inr (JArr [badge_entry (Some ''Build'') (Some ''purple''),
                  badge_entry (Some ''Custom'') (Some ''#ff0000'')])
      \<and> json_parse sample_host ''[]'' = Inr (JArr [])\<close>
    by (simp add: sample_host_def sample_parse_def)
  from card_badges_order [where H = sample_host and el = ?el and bs = "[''A'', ''B'']"
      and cbs = "[(Some ''Build'', Some ''purple''), (Some ''Custom'', Some ''#ff0000'')]"]
    a c p show ?thesis
    by (simp add: no_attributes_def or_default_def truthy_attr_def badge_element_def
        badge_open_def escapeText_def escape_char_def)
qed

text \<open>
  C10: the text \<open>"A"\<close> is well-formed JSON and parses to a string, not an array. The card
  logs nothing, finds the string's length above zero, and throws a TypeError at
  \<open>badges.forEach\<close>: the type of a parsed value is never checked.
\<close>

theorem card_string_badges_throws:
  assumes \<open>json_parse H ''"A"'' = Inr (JStr ''A'')\<close> and "json_parse H ''[]'' = Inr (JArr [])"
    and \<open>el ''badges'' = Some ''"A"''\<close> and "el ''color-badges'' = None"
  shows "MsuCard_render H el = ([], Inl TypeError)"
  unfolding MsuCard_render_def Let_def
  by (simp add: assms(3,4) or_default_def parse_or_empty_ok [OF assms(1)]
      parse_or_empty_ok [OF assms(2)] card_badges_def)

theorem card_string_badges_throws_witness:
  \<open>json_parse sample_host ''"A"'' = Inr (JStr ''A'')
   \<and> json_parse sample_host ''[]'' = Inr (JArr [])
   \<and> MsuCard_render sample_host (no_attributes(''title'' \<mapsto> ''Astronomy'', ''badges'' \<mapsto> ''"A"''))
       = ([], Inl TypeError)\<close>
  using card_string_badges_throws [of sample_host
      \<open>no_attributes(''title'' \<mapsto> ''Astronomy'', ''badges'' \<mapsto> ''"A"'')\<close>]
  by (simp add: sample_host_def sample_parse_def no_attributes_def)

section \<open>The navigation bar's links\<close>



text \<open>
  C1: a \<open>page-links\<close> attribute that does not parse should be taken as the empty list,
  with a warning. The navbar and the footer call \<open>JSON.parse\<close> outside any \<open>try\<close>: the
  SyntaxError leaves \<open>connectedCallback\<close>, and nothing is rendered.
\<close>

theorem page_links_malformed_throws:
  assumes "truthy_attr (el ''page-links'')"
    and "json_parse H (the (el ''page-links'')) = Inl SyntaxError"
  shows "MsuNavbar_connectedCallback H el p = Inl SyntaxError
    \<and> MsuFooter_connectedCallback H el = Inl SyntaxError"
  using assms
  by (simp add: MsuNavbar_connectedCallback_def navbar_connected_def
      MsuFooter_connectedCallback_def footer_connected_def footer_links_def page_links_def)

theorem page_links_malformed_throws_witness:
  "truthy_attr ((no_attributes(''page-links'' \<mapsto> ''{not json'')) ''page-links'')
   \<and> json_parse sample_host ''{not json'' = Inl SyntaxError
   \<and> MsuNavbar_connectedCallback sample_host (no_attributes(''page-links'' \<mapsto> ''{not json''))
        sample_page = Inl SyntaxError
   \<and> MsuFooter_connectedCallback sample_host (no_attributes(''page-links'' \<mapsto> ''{not json''))
       = Inl SyntaxError"
  using page_links_malformed_throws [of "no_attributes(''page-links'' \<mapsto> ''{not json'')"
      sample_host sample_page]
  by (simp add: truthy_attr_def sample_host_def sample_parse_def)




end
